theory Spec2Isabelle
  imports Main
begin

section \<open>The VideoThumbnail component\<close>

text \<open>
  A shallow embedding of \<^verbatim>\<open>src/components/VideoThumbnail.tsx\<close>: one React function
  component with seven boolean \<^verbatim>\<open>useState\<close> cells, two refs, two mount effects and a set of
  event handlers. An instance is a record of the state cells together with what its handlers
  read and write besides them (the video ref, the intersection observer, the console, the
  imperative calls on the media element and the document). Every handler is a function from
  instances to instances; the JSX is a function from props and instance to the list of
  children of the container element.
\<close>

subsection \<open>Props\<close>

datatype aspect = Video | Vertical

text \<open>
  \<^verbatim>\<open>thumbnailIndex?: number\<close>: the index is modelled as an integer, \<open>None\<close> is the absent
  prop (\<^verbatim>\<open>undefined\<close>). Non-integral numbers, \<^verbatim>\<open>NaN\<close> and integers that a number cannot
  hold exactly are outside the model.
\<close>

record props =
  src :: string
  title :: string
  aspectRatio :: aspect
  className :: string
  isShowreel :: bool
  thumbnailIndex :: "int option"

subsection \<open>Numbers in template literals\<close>

text \<open>
  A JavaScript number holds every integer of magnitude below \<open>2^53\<close> exactly (a safe
  integer), and \<^verbatim>\<open>`${thumbnailIndex}`\<close> prints such a number as its decimal numeral, with a
  leading minus sign when negative. \<open>number_toString\<close> is that conversion on safe integers;
  beyond them a number is rounded, and from \<open>10^21\<close> printed with an exponent, which the
  function below does not follow: what is proved of it is stated for safe integers only.
\<close>

definition safe_integer :: "int \<Rightarrow> bool" where
  "safe_integer i = (\<bar>i\<bar> < 2 ^ 53)"

definition digit_char :: "nat \<Rightarrow> char" where
  "digit_char d = char_of (48 + d)"

fun nat_toString :: "nat \<Rightarrow> string" where
  "nat_toString n =
     (if n < 10 then [digit_char n] else nat_toString (n div 10) @ [digit_char (n mod 10)])"

declare nat_toString.simps [simp del]

definition number_toString :: "int \<Rightarrow> string" where
  "number_toString i =
     (if i < 0 then CHR ''-'' # nat_toString (nat (- i)) else nat_toString (nat i))"

text \<open>
  \<^verbatim>\<open>if (thumbnailIndex)\<close> tests the truthiness of an optional number: \<^verbatim>\<open>undefined\<close> and
  \<open>0\<close> are falsy, every other integer is truthy.
\<close>

fun truthy :: "int option \<Rightarrow> bool" where
  "truthy None = False"
| "truthy (Some i) = (i \<noteq> 0)"

definition getThumbnailPath :: "props \<Rightarrow> string option" where
  "getThumbnailPath p =
     (if truthy (thumbnailIndex p)
      then Some (''/thumbnails/'' @
                 (case thumbnailIndex p of
                    Some i \<Rightarrow> number_toString i
                  | None \<Rightarrow> ''undefined'') @ ''.jpg'')
      else None)"

subsection \<open>The instance\<close>

datatype log_entry = LogError "string list" | LogWarn "string list"

text \<open>The imperative calls a handler makes on the media element, the container, the document
  and the observer, in the order they are made.\<close>

datatype command =
    SetSrc string
  | Load
  | PauseCmd
  | PlayCmd
  | RequestFullscreen
  | ExitFullscreen
  | ObserverDisconnect

text \<open>
  The first seven fields are the \<^verbatim>\<open>useState\<close> cells. \<open>videoRef\<close> is true when
  \<^verbatim>\<open>videoRef.current\<close> is an element; \<open>observing\<close> is true while the intersection observer
  is connected; \<open>pendingPlay\<close> counts the \<^verbatim>\<open>play()\<close> promises a click handler is awaiting.
\<close>

record widget =
  isPlaying :: bool
  isFullscreen :: bool
  isInView :: bool
  videoLoaded :: bool
  isLoading :: bool
  hasInteracted :: bool
  thumbnailLoaded :: bool
  videoRef :: bool
  observing :: bool
  pendingPlay :: nat
  console :: "log_entry list"
  commands :: "command list"

text \<open>The instance after mount: every state cell false; the container is always rendered, so
  the mount effect creates the observer and observes it.\<close>

definition init :: widget where
  "init = \<lparr> isPlaying = False, isFullscreen = False, isInView = False, videoLoaded = False,
            isLoading = False, hasInteracted = False, thumbnailLoaded = False,
            videoRef = False, observing = True, pendingPlay = 0, console = [], commands = [] \<rparr>"

subsection \<open>Handlers\<close>

definition loadVideo :: "props \<Rightarrow> widget \<Rightarrow> widget" where
  "loadVideo p w =
     (if videoRef w \<and> \<not> videoLoaded w
      then w\<lparr>commands := commands w @ [SetSrc (src p), Load]\<rparr>
      else w)"

datatype outcome = Granted | Rejected string

text \<open>
  \<^verbatim>\<open>handleClick\<close> is an async function. Its synchronous part runs up to the
  \<^verbatim>\<open>await videoRef.current.play()\<close>; the result says whether a \<^verbatim>\<open>play()\<close> promise is being
  awaited. The closure's \<^verbatim>\<open>videoLoaded\<close> and \<^verbatim>\<open>isPlaying\<close> are those of the render the
  handler belongs to.
\<close>

definition handleClick_begin :: "props \<Rightarrow> widget \<Rightarrow> widget \<times> bool" where
  "handleClick_begin p w =
     (if \<not> videoRef w then (w, False)
      else
        let w1 = w\<lparr>hasInteracted := True\<rparr>;
            w2 = (if \<not> videoLoaded w then loadVideo p w1 else w1)
        in if isPlaying w
           then (w2\<lparr>commands := commands w2 @ [PauseCmd], isPlaying := False\<rparr>, False)
           else (w2\<lparr>isLoading := True, commands := commands w2 @ [PlayCmd]\<rparr>, True))"

text \<open>The rest of \<^verbatim>\<open>handleClick\<close>, run when the awaited promise settles.\<close>

fun handleClick_settle :: "outcome \<Rightarrow> widget \<Rightarrow> widget" where
  "handleClick_settle Granted w = w\<lparr>isPlaying := True, isLoading := False\<rparr>"
| "handleClick_settle (Rejected err) w =
     w\<lparr>console := console w @ [LogError [''Error playing video:'', err]], isLoading := False\<rparr>"

text \<open>A whole call of \<^verbatim>\<open>handleClick\<close>, from the click to the end of the handler, when
  nothing else happens in between.\<close>

definition handleClick :: "props \<Rightarrow> outcome \<Rightarrow> widget \<Rightarrow> widget" where
  "handleClick p oc w =
     (case handleClick_begin p w of
        (w1, True) \<Rightarrow> handleClick_settle oc w1
      | (w1, False) \<Rightarrow> w1)"

definition toggleFullscreen :: "widget \<Rightarrow> widget" where
  "toggleFullscreen w =
     (if \<not> isFullscreen w
      then w\<lparr>commands := commands w @ [RequestFullscreen]\<rparr>
      else w\<lparr>commands := commands w @ [ExitFullscreen]\<rparr>)"

text \<open>\<^verbatim>\<open>setIsFullscreen(!!document.fullscreenElement)\<close>; the argument says whether the
  document has a fullscreen element when the event fires.\<close>

definition handleFullscreenChange :: "bool \<Rightarrow> widget \<Rightarrow> widget" where
  "handleFullscreenChange fullscreenElement w = w\<lparr>isFullscreen := fullscreenElement\<rparr>"

text \<open>The observer's callback; the argument is \<^verbatim>\<open>entry.isIntersecting\<close>.\<close>

definition onIntersect :: "bool \<Rightarrow> widget \<Rightarrow> widget" where
  "onIntersect isIntersecting w =
     (if isIntersecting
      then w\<lparr>isInView := True, observing := False,
             commands := commands w @ [ObserverDisconnect]\<rparr>
      else w)"

definition img_onLoad :: "widget \<Rightarrow> widget" where
  "img_onLoad w = w\<lparr>thumbnailLoaded := True\<rparr>"

definition img_onError :: "props \<Rightarrow> widget \<Rightarrow> widget" where
  "img_onError p w =
     w\<lparr>console := console w @
          [LogWarn [''Thumbnail not found: '' @ (case getThumbnailPath p of
                                                  Some path \<Rightarrow> path | None \<Rightarrow> ''null'')]],
       thumbnailLoaded := False\<rparr>"

definition video_onLoadedData :: "widget \<Rightarrow> widget" where
  "video_onLoadedData w = w\<lparr>videoLoaded := True\<rparr>"

definition video_onPlay :: "widget \<Rightarrow> widget" where
  "video_onPlay w = w\<lparr>isPlaying := True, isLoading := False\<rparr>"

definition video_onPause :: "widget \<Rightarrow> widget" where
  "video_onPause w = w\<lparr>isPlaying := False\<rparr>"

definition video_onEnded :: "widget \<Rightarrow> widget" where
  "video_onEnded w = w\<lparr>isPlaying := False\<rparr>"

definition video_onLoadStart :: "widget \<Rightarrow> widget" where
  "video_onLoadStart w = w\<lparr>isLoading := True\<rparr>"

definition video_onCanPlay :: "widget \<Rightarrow> widget" where
  "video_onCanPlay w = w\<lparr>isLoading := False\<rparr>"

definition video_onError :: "props \<Rightarrow> widget \<Rightarrow> widget" where
  "video_onError p w =
     w\<lparr>isLoading := False,
       console := console w @ [LogError [''Video failed to load:'', src p]]\<rparr>"

subsection \<open>The rendered output\<close>

datatype icon = Spinner | PauseIcon | PlayIcon

text \<open>
  The children of the container, in document order, with the attributes that depend on the
  state: the poster image (source, alt text, whether opaque), the video (loop, whether
  opaque), the fallback panel, the play overlay with its icon, the hover overlay, the
  fullscreen button (whether it shows the close icon) and the title badge. Class names are
  not modelled.
\<close>

datatype element =
    Img string string bool
  | VideoElem bool bool
  | FallbackPanel
  | PlayOverlay icon
  | HoverOverlay
  | FullscreenButton bool
  | TitleBadge string

definition render :: "props \<Rightarrow> widget \<Rightarrow> element list" where
  "render p w =
     (case getThumbnailPath p of
        Some path \<Rightarrow>
          if isInView w
          then [Img path (title p @ '' thumbnail'') (\<not> (isPlaying w \<and> videoLoaded w))]
          else []
      | None \<Rightarrow> [])
     @ (if hasInteracted w then [VideoElem (isShowreel p) (videoLoaded w \<and> isPlaying w)] else [])
     @ (if \<not> thumbnailLoaded w \<and> getThumbnailPath p = None then [FallbackPanel] else [])
     @ [PlayOverlay (if isLoading w then Spinner else if isPlaying w then PauseIcon else PlayIcon)]
     @ (if \<not> isFullscreen w then [HoverOverlay] else [])
     @ [FullscreenButton (isFullscreen w), TitleBadge (title p)]"

fun is_img :: "element \<Rightarrow> bool" where
  "is_img (Img _ _ _) = True"
| "is_img _ = False"

fun is_video :: "element \<Rightarrow> bool" where
  "is_video (VideoElem _ _) = True"
| "is_video _ = False"

definition has_img :: "element list \<Rightarrow> bool" where
  "has_img es = list_ex is_img es"

definition has_video :: "element list \<Rightarrow> bool" where
  "has_video es = list_ex is_video es"

definition has_fallback :: "element list \<Rightarrow> bool" where
  "has_fallback es = (FallbackPanel \<in> set es)"

subsection \<open>Events\<close>

text \<open>
  What can happen to a mounted instance. A click on the container runs the synchronous part
  of \<^verbatim>\<open>handleClick\<close>; the promise it awaits settles in a later event. A click on the
  fullscreen button stops propagation and toggles fullscreen. The image and video events
  reach their handlers only while the element is in the document; the observer calls back
  only while connected.
\<close>

datatype event =
    Click
  | PlaySettled outcome
  | FullscreenButtonClick
  | FullscreenChange bool
  | Intersect bool
  | ImgLoad
  | ImgError
  | VideoLoadedData
  | VideoPlay
  | VideoPause
  | VideoEnded
  | VideoLoadStart
  | VideoCanPlay
  | VideoError

fun dispatch :: "props \<Rightarrow> event \<Rightarrow> widget \<Rightarrow> widget" where
  "dispatch p Click w =
     (case handleClick_begin p w of
        (w1, True) \<Rightarrow> w1\<lparr>pendingPlay := Suc (pendingPlay w1)\<rparr>
      | (w1, False) \<Rightarrow> w1)"
| "dispatch p (PlaySettled oc) w =
     (if 0 < pendingPlay w
      then handleClick_settle oc (w\<lparr>pendingPlay := pendingPlay w - 1\<rparr>)
      else w)"
| "dispatch p FullscreenButtonClick w = toggleFullscreen w"
| "dispatch p (FullscreenChange fe) w = handleFullscreenChange fe w"
| "dispatch p (Intersect b) w = (if observing w then onIntersect b w else w)"
| "dispatch p ImgLoad w = (if has_img (render p w) then img_onLoad w else w)"
| "dispatch p ImgError w = (if has_img (render p w) then img_onError p w else w)"
| "dispatch p VideoLoadedData w = (if videoRef w then video_onLoadedData w else w)"
| "dispatch p VideoPlay w = (if videoRef w then video_onPlay w else w)"
| "dispatch p VideoPause w = (if videoRef w then video_onPause w else w)"
| "dispatch p VideoEnded w = (if videoRef w then video_onEnded w else w)"
| "dispatch p VideoLoadStart w = (if videoRef w then video_onLoadStart w else w)"
| "dispatch p VideoCanPlay w = (if videoRef w then video_onCanPlay w else w)"
| "dispatch p VideoError w = (if videoRef w then video_onError p w else w)"

text \<open>After a handler has run React renders again and commits: \<^verbatim>\<open>videoRef.current\<close> is the
  video element exactly when the render contains one.\<close>

definition commit :: "props \<Rightarrow> widget \<Rightarrow> widget" where
  "commit p w = w\<lparr>videoRef := has_video (render p w)\<rparr>"

definition step :: "props \<Rightarrow> event \<Rightarrow> widget \<Rightarrow> widget" where
  "step p e w = commit p (dispatch p e w)"

fun run :: "props \<Rightarrow> event list \<Rightarrow> widget \<Rightarrow> widget" where
  "run p [] w = w"
| "run p (e # es) w = run p es (step p e w)"

text \<open>An instance is committed when its video ref agrees with its rendered output.\<close>

definition committed :: "props \<Rightarrow> widget \<Rightarrow> bool" where
  "committed p w = (videoRef w = has_video (render p w))"

text \<open>
  An instance that has no video element and has never had one: the ref is unset, no click
  has got past the guard of \<^verbatim>\<open>handleClick\<close>, nothing plays, loads or is awaited.
\<close>

definition unmounted :: "widget \<Rightarrow> bool" where
  "unmounted w =
     (\<not> videoRef w \<and> \<not> hasInteracted w \<and> \<not> isPlaying w \<and> \<not> videoLoaded w \<and>
      \<not> isLoading w \<and> pendingPlay w = 0)"


subsection \<open>Example instances\<close>

definition props0 :: props where
  "props0 = \<lparr> src = ''/videos/reel.mp4'', title = ''Reel'', aspectRatio = Video,
              className = [], isShowreel = False, thumbnailIndex = None \<rparr>"

definition props1 :: props where
  "props1 = props0\<lparr>thumbnailIndex := Some 1\<rparr>"

text \<open>An instance whose video element is in the document.\<close>

definition interacted :: widget where
  "interacted = init\<lparr>hasInteracted := True, videoRef := True\<rparr>"

definition in_view :: widget where
  "in_view = run props1 [Intersect True] init"

definition poster_failed :: widget where
  "poster_failed = run props1 [Intersect True, ImgError] init"

definition latched :: widget where
  "latched = run props1 [Intersect True] interacted"

definition all_events :: "event list" where
  "all_events =
     [Click, PlaySettled (Rejected ''AbortError''), Click, PlaySettled Granted, Click,
      FullscreenButtonClick, FullscreenChange True, FullscreenChange False,
      Intersect False, Intersect True, ImgLoad, ImgError, VideoLoadedData, VideoPlay,
      VideoPause, VideoEnded, VideoLoadStart, VideoCanPlay, VideoError]"

definition before_intersection :: "event list" where
  "before_intersection = [Intersect False, Click, ImgLoad, FullscreenChange True, Intersect False]"

section \<open>Properties\<close>

subsection \<open>What the render contains\<close>

lemma has_img_render: "has_img (render p w) = (getThumbnailPath p \<noteq> None \<and> isInView w)"
  by (auto simp: has_img_def render_def split: option.splits)

lemma has_video_render: "has_video (render p w) = hasInteracted w"
  by (auto simp: has_video_def render_def split: option.splits)


subsection \<open>What a handler and a step change\<close>

lemmas handler_defs =
  toggleFullscreen_def handleFullscreenChange_def
  onIntersect_def img_onLoad_def img_onError_def video_onLoadedData_def video_onPlay_def
  video_onPause_def video_onEnded_def video_onLoadStart_def video_onCanPlay_def
  video_onError_def

lemma settle_fields:
  "hasInteracted (handleClick_settle oc w) = hasInteracted w"
  "isInView (handleClick_settle oc w) = isInView w"
  "observing (handleClick_settle oc w) = observing w"
  "thumbnailLoaded (handleClick_settle oc w) = thumbnailLoaded w"
  "isFullscreen (handleClick_settle oc w) = isFullscreen w"
  "videoLoaded (handleClick_settle oc w) = videoLoaded w"
  "videoRef (handleClick_settle oc w) = videoRef w"
  by (cases oc; simp)+

lemma begin_fields:
  "isInView (fst (handleClick_begin p w)) = isInView w"
  "observing (fst (handleClick_begin p w)) = observing w"
  "thumbnailLoaded (fst (handleClick_begin p w)) = thumbnailLoaded w"
  "isFullscreen (fst (handleClick_begin p w)) = isFullscreen w"
  "videoLoaded (fst (handleClick_begin p w)) = videoLoaded w"
  "hasInteracted (fst (handleClick_begin p w)) = (videoRef w \<or> hasInteracted w)"
  by (simp_all add: handleClick_begin_def loadVideo_def Let_def)

lemma dispatch_Click:
  "dispatch p Click w =
     (if snd (handleClick_begin p w)
      then (fst (handleClick_begin p w))\<lparr>pendingPlay := Suc (pendingPlay (fst (handleClick_begin p w)))\<rparr>
      else fst (handleClick_begin p w))"
  by (simp split: prod.splits)


lemma commit_fields:
  "hasInteracted (commit p w) = hasInteracted w"
  "isInView (commit p w) = isInView w"
  "observing (commit p w) = observing w"
  "thumbnailLoaded (commit p w) = thumbnailLoaded w"
  "isFullscreen (commit p w) = isFullscreen w"
  "videoRef (commit p w) = hasInteracted w"
  by (simp_all add: commit_def has_video_render)

lemma dispatch_hasInteracted:
  "hasInteracted (dispatch p e w) = (hasInteracted w \<or> (e = Click \<and> videoRef w))"
proof (cases e)
  case Click
  then show ?thesis
    by (auto simp add: dispatch_Click begin_fields simp del: dispatch.simps(1))
next
  case (PlaySettled oc)
  then show ?thesis by (simp add: settle_fields)
next
  case (Intersect b)
  then show ?thesis by (simp add: onIntersect_def)
qed (simp_all add: handler_defs)

lemma dispatch_isInView:
  "isInView (dispatch p e w) = (isInView w \<or> (e = Intersect True \<and> observing w))"
proof (cases e)
  case Click
  then show ?thesis by (simp add: dispatch_Click begin_fields del: dispatch.simps(1))
next
  case (PlaySettled oc)
  then show ?thesis by (simp add: settle_fields)
next
  case (Intersect b)
  then show ?thesis by (simp add: onIntersect_def)
qed (simp_all add: handler_defs)

lemma dispatch_observing:
  "observing (dispatch p e w) = (observing w \<and> e \<noteq> Intersect True)"
proof (cases e)
  case Click
  then show ?thesis by (simp add: dispatch_Click begin_fields del: dispatch.simps(1))
next
  case (PlaySettled oc)
  then show ?thesis by (simp add: settle_fields)
next
  case (Intersect b)
  then show ?thesis by (simp add: onIntersect_def)
qed (simp_all add: handler_defs)


lemma step_hasInteracted:
  "hasInteracted (step p e w) = (hasInteracted w \<or> (e = Click \<and> videoRef w))"
  by (simp add: step_def commit_fields dispatch_hasInteracted)

lemma step_isInView:
  "isInView (step p e w) = (isInView w \<or> (e = Intersect True \<and> observing w))"
  by (simp add: step_def commit_fields dispatch_isInView)

lemma step_observing:
  "observing (step p e w) = (observing w \<and> e \<noteq> Intersect True)"
  by (simp add: step_def commit_fields dispatch_observing)


lemma step_isFullscreen:
  "isFullscreen (step p (FullscreenChange fe) w) = fe"
  by (simp add: step_def commit_fields handleFullscreenChange_def)

lemma step_committed: "committed p (step p e w)"
  by (simp add: step_def commit_def committed_def has_video_render)

lemma init_committed: "committed p init"
  by (simp add: committed_def has_video_render init_def)

lemma step_hasInteracted_inert:
  "committed p w \<Longrightarrow> \<not> hasInteracted w \<Longrightarrow> \<not> hasInteracted (step p e w)"
  by (simp add: step_hasInteracted committed_def has_video_render)

subsection \<open>Sequences of events\<close>

lemma run_hasInteracted_inert:
  "committed p w \<Longrightarrow> \<not> hasInteracted w \<Longrightarrow> \<not> hasInteracted (run p evs w)"
proof (induction evs arbitrary: w)
  case Nil
  then show ?case by simp
next
  case (Cons e evs)
  have "committed p (step p e w)" by (rule step_committed)
  moreover have "\<not> hasInteracted (step p e w)"
    using Cons.prems by (rule step_hasInteracted_inert)
  ultimately show ?case using Cons.IH by simp
qed

lemma run_isInView_mono: "isInView w \<Longrightarrow> isInView (run p evs w)"
  by (induction evs arbitrary: w) (simp_all add: step_isInView)

lemma run_hasInteracted_mono: "hasInteracted w \<Longrightarrow> hasInteracted (run p evs w)"
  by (induction evs arbitrary: w) (simp_all add: step_hasInteracted)

lemma run_not_observing: "\<not> observing w \<Longrightarrow> \<not> observing (run p evs w)"
  by (induction evs arbitrary: w) (simp_all add: step_observing)

lemma run_not_inView:
  "Intersect True \<notin> set evs \<Longrightarrow> \<not> isInView w \<Longrightarrow> \<not> isInView (run p evs w)"
proof (induction evs arbitrary: w)
  case Nil
  then show ?case by simp
next
  case (Cons e evs)
  from Cons.prems(1) have ne: "e \<noteq> Intersect True" and rest: "Intersect True \<notin> set evs"
    by auto
  from ne Cons.prems(2) have "\<not> isInView (step p e w)"
    by (simp add: step_isInView)
  with rest show ?case using Cons.IH by simp
qed


lemma getThumbnailPath_nonzero:
  "thumbnailIndex p = Some i \<Longrightarrow> i \<noteq> 0 \<Longrightarrow> safe_integer i \<Longrightarrow>
     getThumbnailPath p = Some (''/thumbnails/'' @ number_toString i @ ''.jpg'')"
  by (simp add: getThumbnailPath_def)


subsection \<open>An instance without a video element\<close>

lemma commit_unmounted: "unmounted w \<Longrightarrow> commit p w = w"
  by (simp add: unmounted_def commit_def has_video_render)

lemma init_unmounted: "unmounted init"
  by (simp add: unmounted_def init_def)

lemma begin_unmounted: "unmounted w \<Longrightarrow> handleClick_begin p w = (w, False)"
  by (simp add: unmounted_def handleClick_begin_def)

lemma step_Click_unmounted: "unmounted w \<Longrightarrow> step p Click w = w"
  by (simp add: step_def begin_unmounted commit_unmounted)

lemma step_PlaySettled_unmounted: "unmounted w \<Longrightarrow> step p (PlaySettled oc) w = w"
  by (simp add: step_def commit_unmounted) (simp add: unmounted_def)

lemma dispatch_unmounted: "unmounted w \<Longrightarrow> unmounted (dispatch p e w)"
proof (cases e)
  case Click
  assume "unmounted w"
  with Click show ?thesis by (simp add: begin_unmounted)
next
  case (PlaySettled oc)
  assume "unmounted w"
  with PlaySettled show ?thesis by (simp add: unmounted_def)
next
  case (Intersect b)
  assume "unmounted w"
  with Intersect show ?thesis by (simp add: unmounted_def onIntersect_def)
qed (simp_all add: unmounted_def handler_defs)

lemma step_unmounted: "unmounted w \<Longrightarrow> unmounted (step p e w)"
proof -
  assume "unmounted w"
  then have d: "unmounted (dispatch p e w)" by (rule dispatch_unmounted)
  then have "commit p (dispatch p e w) = dispatch p e w" by (rule commit_unmounted)
  with d show ?thesis by (simp add: step_def)
qed

lemma run_unmounted: "unmounted w \<Longrightarrow> unmounted (run p evs w)"
  by (induction evs arbitrary: w) (simp_all add: step_unmounted)

lemma run_append: "run p (xs @ ys) w = run p ys (run p xs w)"
  by (induction xs arbitrary: w) simp_all


subsection \<open>Play and pause\<close>

text \<open>
  With a video element in the document the handler does what its \<^verbatim>\<open>try\<close> and \<^verbatim>\<open>catch\<close>
  branches say: it requests playback; a granted request ends with \<open>isPlaying\<close> true and
  \<open>isLoading\<close> false, a rejected one with one error logged and \<open>isLoading\<close> false.
\<close>

lemma handleClick_granted_mounted:
  "videoRef w \<Longrightarrow> \<not> isPlaying w \<Longrightarrow>
     snd (handleClick_begin p w) \<and>
     isPlaying (handleClick p Granted w) \<and> \<not> isLoading (handleClick p Granted w)"
  by (simp add: handleClick_def handleClick_begin_def loadVideo_def Let_def)

lemma handleClick_rejected_mounted:
  "committed p w \<Longrightarrow> videoRef w \<Longrightarrow> \<not> isPlaying w \<Longrightarrow>
     handleClick p (Rejected err) w =
       w\<lparr>isLoading := False,
         console := console w @ [LogError [''Error playing video:'', err]],
         commands := commands w @ (if videoLoaded w then [] else [SetSrc (src p), Load])
                       @ [PlayCmd]\<rparr>"
  by (simp add: handleClick_def handleClick_begin_def loadVideo_def Let_def committed_def
        has_video_render)

text \<open>
  Claim C1. A click handled while the widget is not playing, where the platform would grant
  playback, should end with \<open>isPlaying\<close> true and \<open>isLoading\<close> false. After every sequence
  of events from mount the widget is not playing, and a click there requests no playback:
  the handler awaits nothing and returns the instance as it was, the click followed by a
  granted settlement leaves the instance as it was, and \<open>isPlaying\<close> is false.
\<close>

theorem click_from_mount_never_plays:
  "\<not> snd (handleClick_begin p (run p evs init)) \<and>
   handleClick p Granted (run p evs init) = run p evs init \<and>
   run p (evs @ [Click, PlaySettled Granted]) init = run p evs init \<and>
   \<not> isPlaying (run p evs init)"
proof -
  have u: "unmounted (run p evs init)" using init_unmounted by (rule run_unmounted)
  then have b: "handleClick_begin p (run p evs init) = (run p evs init, False)"
    by (rule begin_unmounted)
  from u have "step p (PlaySettled Granted) (step p Click (run p evs init)) = run p evs init"
    by (simp add: step_Click_unmounted step_PlaySettled_unmounted)
  then have "run p (evs @ [Click, PlaySettled Granted]) init = run p evs init"
    by (simp add: run_append)
  moreover from u have "\<not> isPlaying (run p evs init)" by (simp add: unmounted_def)
  ultimately show ?thesis using b by (simp add: handleClick_def)
qed


subsection \<open>The media element\<close>

text \<open>
  Claim C3. In every state of an instance, if \<open>hasInteracted\<close> is false the rendered output
  has no video element; the video element is rendered only when \<open>hasInteracted\<close> is true.
\<close>

theorem video_only_after_interaction:
  "(\<not> hasInteracted w \<longrightarrow> \<not> has_video (render p w)) \<and>
   (has_video (render p w) \<longrightarrow> hasInteracted w)"
  by (simp add: has_video_render)

theorem video_only_after_interaction_witness:
  "\<not> hasInteracted init \<and> \<not> has_video (render props0 init) \<and>
   has_video (render props0 interacted) \<and> hasInteracted interacted"
proof -
  have a: "\<not> hasInteracted init" by (simp add: init_def)
  have b: "has_video (render props0 interacted)"
    by (simp add: has_video_render interacted_def)
  from video_only_after_interaction [of init props0] a
  have "\<not> has_video (render props0 init)" by blast
  moreover from video_only_after_interaction [of interacted props0] b
  have "hasInteracted interacted" by blast
  ultimately show ?thesis using a b by simp
qed

text \<open>
  Claim C4. When the video ref is unset, \<^verbatim>\<open>handleClick\<close> returns at once: it awaits nothing
  and leaves every state cell as it was. The ref is unset whenever \<open>hasInteracted\<close> is false
  in a committed instance, so from such an instance, and from the freshly mounted one, no
  sequence of events (clicks among them) ever makes \<open>hasInteracted\<close> true.
\<close>

theorem click_without_video_is_inert:
  "(\<not> videoRef w \<longrightarrow> handleClick_begin p w = (w, False) \<and> handleClick p oc w = w) \<and>
   (committed p w \<and> \<not> hasInteracted w \<longrightarrow>
      \<not> videoRef w \<and> \<not> hasInteracted (run p evs w)) \<and>
   \<not> hasInteracted (run p evs init)"
proof (intro conjI impI)
  assume "\<not> videoRef w"
  then show "handleClick_begin p w = (w, False)" by (simp add: handleClick_begin_def)
  then show "handleClick p oc w = w" by (simp add: handleClick_def)
next
  assume a: "committed p w \<and> \<not> hasInteracted w"
  then show "\<not> videoRef w" by (simp add: committed_def has_video_render)
  from a show "\<not> hasInteracted (run p evs w)" by (simp add: run_hasInteracted_inert)
next
  have "\<not> hasInteracted init" by (simp add: init_def)
  with init_committed show "\<not> hasInteracted (run p evs init)"
    by (rule run_hasInteracted_inert)
qed

theorem click_without_video_is_inert_witness:
  "\<not> videoRef init \<and> handleClick_begin props1 init = (init, False) \<and>
   handleClick props1 Granted init = init \<and>
   committed props1 init \<and> \<not> hasInteracted init \<and>
   \<not> hasInteracted (run props1 all_events init)"
proof -
  have a: "\<not> videoRef init" by (simp add: init_def)
  have b: "committed props1 init" by (rule init_committed)
  have c: "\<not> hasInteracted init" by (simp add: init_def)
  show ?thesis
    using a b c click_without_video_is_inert [of init props1 Granted all_events]
    by blast
qed

subsection \<open>The poster and the fallback panel\<close>

text \<open>
  Claim C5. Every supplied poster index should give the path \<^verbatim>\<open>/thumbnails/{i}.jpg\<close>, and
  only an absent index should give none. The code tests the index for truthiness: the
  supplied index \<open>0\<close> gives no path.
\<close>

theorem getThumbnailPath_index_zero:
  "getThumbnailPath (p\<lparr>thumbnailIndex := Some 0\<rparr>) = None"
  by (simp add: getThumbnailPath_def)



text \<open>
  Claim C7. When the poster image fails to load, a warning is logged and \<open>thumbnailLoaded\<close>
  is false, but the fallback panel is not in the render: its condition also asks for the
  poster path to be absent, and the failing image has one. Here the instance with poster
  index \<open>1\<close> comes into view and its image reports an error.
\<close>

theorem poster_failure_no_fallback:
  "has_img (render props1 in_view) \<and>
   poster_failed = step props1 ImgError in_view \<and>
   console poster_failed = [LogWarn [''Thumbnail not found: /thumbnails/1.jpg'']] \<and>
   \<not> thumbnailLoaded poster_failed \<and>
   \<not> has_fallback (render props1 poster_failed)"
  by code_simp

subsection \<open>Latches\<close>

text \<open>
  Claim C8. \<open>isInView\<close> and \<open>hasInteracted\<close> are monotonic: once either is true, it is true
  after every event and after every sequence of events.
\<close>

theorem latches_monotonic:
  "(isInView w \<longrightarrow> isInView (step p e w) \<and> isInView (run p evs w)) \<and>
   (hasInteracted w \<longrightarrow> hasInteracted (step p e w) \<and> hasInteracted (run p evs w))"
  by (simp add: step_isInView step_hasInteracted run_isInView_mono run_hasInteracted_mono)

theorem latches_monotonic_witness:
  "isInView latched \<and> isInView (step props1 (Intersect False) latched) \<and>
   isInView (run props1 all_events latched) \<and>
   hasInteracted latched \<and> hasInteracted (step props1 (Intersect False) latched) \<and>
   hasInteracted (run props1 all_events latched)"
proof -
  have a: "isInView latched" by code_simp
  have b: "hasInteracted latched" by code_simp
  show ?thesis
    using a b latches_monotonic [of latched props1 "Intersect False" all_events]
    by blast
qed

text \<open>
  Claim C9. The poster image is not in the render of any instance the container has not yet
  reported an intersection for; once it is in the render it stays there after every
  sequence of events; and the observer is disconnected from the first reported intersection
  on.
\<close>

theorem poster_after_first_intersection:
  "(Intersect True \<notin> set evs \<longrightarrow> \<not> has_img (render p (run p evs init))) \<and>
   (has_img (render p w) \<longrightarrow> has_img (render p (run p evs w))) \<and>
   \<not> observing (run p evs (step p (Intersect True) w))"
proof (intro conjI impI)
  assume "Intersect True \<notin> set evs"
  moreover have "\<not> isInView init" by (simp add: init_def)
  ultimately have "\<not> isInView (run p evs init)" by (rule run_not_inView)
  then show "\<not> has_img (render p (run p evs init))" by (simp add: has_img_render)
next
  assume "has_img (render p w)"
  then show "has_img (render p (run p evs w))"
    by (simp add: has_img_render run_isInView_mono)
next
  have "\<not> observing (step p (Intersect True) w)" by (simp add: step_observing)
  then show "\<not> observing (run p evs (step p (Intersect True) w))"
    by (rule run_not_observing)
qed

theorem poster_after_first_intersection_witness:
  "Intersect True \<notin> set before_intersection \<and>
   \<not> has_img (render props1 (run props1 before_intersection init)) \<and>
   has_img (render props1 in_view) \<and>
   has_img (render props1 (run props1 before_intersection in_view)) \<and>
   \<not> observing (run props1 before_intersection (step props1 (Intersect True) in_view))"
proof -
  have a: "Intersect True \<notin> set before_intersection"
    by (simp add: before_intersection_def)
  have b: "has_img (render props1 in_view)" by code_simp
  from poster_after_first_intersection [of before_intersection props1 in_view] a
  have "\<not> has_img (render props1 (run props1 before_intersection init))" by blast
  moreover from poster_after_first_intersection [of before_intersection props1 in_view] b
  have "has_img (render props1 (run props1 before_intersection in_view))" by blast
  moreover from poster_after_first_intersection [of before_intersection props1 in_view]
  have "\<not> observing (run props1 before_intersection (step props1 (Intersect True) in_view))"
    by blast
  ultimately show ?thesis using a b by simp
qed

subsection \<open>Fullscreen\<close>

text \<open>
  Claim C10. Once a fullscreen-change event has reported a fullscreen element, the flag
  \<open>isFullscreen\<close> is true; whatever happens next, a fullscreen-change event that finds no
  fullscreen element (an exit the widget did not ask for) makes the flag false.
\<close>

theorem fullscreen_exit_mirrored:
  "isFullscreen (step p (FullscreenChange True) w) \<and>
   \<not> isFullscreen
        (step p (FullscreenChange False) (run p evs (step p (FullscreenChange True) w)))"
  by (simp add: step_isFullscreen)

end
